theory Spec2Isabelle
  imports Complex_Main "HOL-Library.AList" "HOL-Library.Char_ord" "HOL-Library.List_Lexorder"
begin

section \<open>The NIFTY50 ingestion scripts: data model\<close>

text \<open>
  The repository holds two variants of one script: \<^verbatim>\<open>data_fetch.py\<close> (names without
  suffix below) and \<^verbatim>\<open>data_fetch_v1.py\<close> (names with the suffix \<open>_v1\<close>). Each downloads
  one-minute bars for twenty symbols, writes them with \<^verbatim>\<open>INSERT OR IGNORE\<close> into one SQLite
  table per symbol and rewrites a README with the two latest rows of every table.

  The collaborators the scripts call (yfinance, pandas, sqlite3, the clock) are not part of
  the repository; they enter the model as the fields of a \<open>world\<close> record or as the small
  engine functions of the next section.
\<close>

subsection \<open>Exceptions and log records\<close>

datatype py_error =
    NameError string          \<comment> \<open>a global name that the module never binds\<close>
  | KeyError string           \<comment> \<open>a DataFrame column that is not there\<close>
  | TypeError                 \<comment> \<open>\<^verbatim>\<open>tz_convert\<close> on a timezone-naive index\<close>
  | ValueError                \<comment> \<open>\<^verbatim>\<open>reset_index\<close> onto a column name that is taken\<close>
  | AttributeError            \<comment> \<open>\<^verbatim>\<open>.dt\<close> on a column that holds no timestamps\<close>
  | ProviderError             \<comment> \<open>whatever \<^verbatim>\<open>yf.download\<close> raised\<close>
  | OperationalError string   \<comment> \<open>raised by sqlite3\<close>
  | ProgrammingError string   \<comment> \<open>raised by sqlite3 for a parameter it cannot bind\<close>

datatype level = INFO | WARNING | ERROR

datatype message =
    Starting_cycle                         \<comment> \<open>"Starting data fetch cycle..."\<close>
  | No_data_returned string                \<comment> \<open>"No data returned for {stock}"\<close>
  | Error_fetching string py_error         \<comment> \<open>"Error fetching data for {stock}: {e}"\<close>
  | Inserted_rows string nat               \<comment> \<open>"Inserted {len(df)} rows for {stock}"\<close>
  | Inserted_duplicates_ignored string nat \<comment> \<open>"[{stock}] Inserted {len(rows)} rows (duplicates ignored)"\<close>
  | No_data_to_insert string               \<comment> \<open>"No data to insert for {stock}"\<close>
  | Error_updating_readme string py_error  \<comment> \<open>"Error updating README for {stock}: {e}"\<close>
  | Cycle_complete                         \<comment> \<open>"Cycle complete. README updated."\<close>

type_synonym log_record = "level \<times> message"

subsection \<open>Timestamps\<close>

text \<open>
  A timezone-aware timestamp is kept as its wall-clock fields in its own zone; the date is
  the proleptic Gregorian ordinal (Python's \<^verbatim>\<open>toordinal()\<close>), which keeps the arithmetic of
  \<^verbatim>\<open>timedelta\<close> free of calendar tables.
\<close>

record pydatetime =
  date_ordinal :: int
  hour :: nat
  minute :: nat
  second :: nat
  microsecond :: nat

definition to_micros :: "pydatetime \<Rightarrow> int" where
  "to_micros d =
     (((date_ordinal d * 24 + int (hour d)) * 60 + int (minute d)) * 60 + int (second d)) * 1000000
       + int (microsecond d)"

definition of_micros :: "int \<Rightarrow> pydatetime" where
  "of_micros n =
     \<lparr> date_ordinal = n div 86400000000,
       hour = nat ((n div 3600000000) mod 24),
       minute = nat ((n div 60000000) mod 60),
       second = nat ((n div 1000000) mod 60),
       microsecond = nat (n mod 1000000) \<rparr>"

definition add_minutes :: "pydatetime \<Rightarrow> int \<Rightarrow> pydatetime" where
  \<comment> \<open>\<^verbatim>\<open>d + timedelta(minutes=m)\<close>; \<open>m\<close> may be negative\<close>
  "add_minutes d m = of_micros (to_micros d + m * 60000000)"

definition dt_le :: "pydatetime \<Rightarrow> pydatetime \<Rightarrow> bool" where
  "dt_le a b = (to_micros a \<le> to_micros b)"

definition dt_less :: "pydatetime \<Rightarrow> pydatetime \<Rightarrow> bool" where
  "dt_less a b = (to_micros a < to_micros b)"

subsection \<open>Rows and frames\<close>

text \<open>
  One OHLCV row. The type parameter is the type of the \<^verbatim>\<open>datetime\<close> cell: a timestamp while
  the row lives in a DataFrame, text once it is in the \<^verbatim>\<open>datetime TEXT PRIMARY KEY\<close> column.
  (\<open>open\<close> is a reserved word of the theory language, hence \<open>open'\<close>.)
\<close>

record 't row =
  datetime :: 't
  open' :: real
  high :: real
  low :: real
  close :: real
  volume :: int

text \<open>
  What \<^verbatim>\<open>yf.download\<close> hands back: a DataFrame indexed by time. \<open>index_name\<close> is the name
  the index gets as a column after \<^verbatim>\<open>reset_index\<close>, \<open>index_tz\<close> the UTC offset in minutes of
  the index's timezone (\<open>None\<close> for a timezone-naive index), \<open>column_names\<close> the value
  columns, and \<open>bars\<close> the rows in index order.
\<close>

record raw_frame =
  index_name :: string
  index_tz :: "int option"
  column_names :: "string list"
  bars :: "pydatetime row list"

text \<open>The same row with its \<^verbatim>\<open>datetime\<close> cell replaced by text (\<^verbatim>\<open>astype(str)\<close>).\<close>

definition datetime_as_text :: "(pydatetime \<Rightarrow> string) \<Rightarrow> pydatetime row \<Rightarrow> string row" where
  "datetime_as_text f r =
     \<lparr> datetime = f (datetime r), open' = open' r, high = high r, low = low r,
       close = close r, volume = volume r \<rparr>"

text \<open>
  The Python object in the \<^verbatim>\<open>datetime\<close> position of a record that \<^verbatim>\<open>to_records\<close> hands to
  sqlite3: a pandas \<^verbatim>\<open>Timestamp\<close> when the column still holds timestamps, a \<^verbatim>\<open>str\<close> after
  \<^verbatim>\<open>astype(str)\<close>.
\<close>

datatype cell = Timestamp pydatetime | Str string

definition to_record :: "('t \<Rightarrow> cell) \<Rightarrow> 't row \<Rightarrow> cell row" where
  "to_record c r =
     \<lparr> datetime = c (datetime r), open' = open' r, high = high r, low = low r,
       close = close r, volume = volume r \<rparr>"

type_synonym table = "string row list"

type_synonym database = "(string \<times> table) list"

text \<open>
  The outside world of one run. \<open>download\<close> is \<^verbatim>\<open>yf.download(tickers=stock, interval="1m", ...)\<close>
  with the period of the variant that runs,
  \<open>now_at stock\<close> the value of \<^verbatim>\<open>datetime.now(IST)\<close> while that symbol is fetched,
  \<open>now_readme\<close> its value while the README is written, \<open>text_of\<close> the text that
  \<^verbatim>\<open>astype(str)\<close> makes of a timestamp, and \<open>write_fails stock\<close> tells whether the engine
  raises while writing a row into that symbol's table (a locked database, a full disk).
\<close>

record world =
  download :: "string \<Rightarrow> py_error + raw_frame"
  now_at :: "string \<Rightarrow> pydatetime"
  now_readme :: pydatetime
  text_of :: "pydatetime \<Rightarrow> string"
  write_fails :: "string \<Rightarrow> bool"

section \<open>The SQLite engine, as far as the scripts use it\<close>

text \<open>
  A database is an association list from table name to the table's rows in insertion order.
  \<^verbatim>\<open>CREATE TABLE IF NOT EXISTS\<close> adds an empty table unless the name is taken.
\<close>

definition create_table_if_not_exists :: "string \<Rightarrow> database \<Rightarrow> database" where
  "create_table_if_not_exists name dbase =
     (case map_of dbase name of
        None \<Rightarrow> dbase @ [(name, [])]
      | Some _ \<Rightarrow> dbase)"

text \<open>
  \<^verbatim>\<open>INSERT OR IGNORE\<close> of one row into a table whose primary key is \<^verbatim>\<open>datetime\<close>: the row is
  dropped when its key is present, whatever its other columns hold.
\<close>

definition insert_or_ignore :: "string row \<Rightarrow> table \<Rightarrow> table" where
  "insert_or_ignore r tbl =
     (if datetime r \<in> set (map datetime tbl) then tbl else tbl @ [r])"

text \<open>
  Binding the parameters of one record. sqlite3 binds \<^verbatim>\<open>int\<close>, \<^verbatim>\<open>float\<close>, \<^verbatim>\<open>str\<close> and
  bytes-like objects and looks adapters up by the exact type of the object; a pandas
  \<^verbatim>\<open>Timestamp\<close> has none, so binding it raises.
\<close>

definition bind_parameters :: "cell row \<Rightarrow> py_error + string row" where
  "bind_parameters r =
     (case datetime r of
        Timestamp t \<Rightarrow> Inl (ProgrammingError ''type Timestamp is not supported'')
      | Str s \<Rightarrow>
          Inr \<lparr> datetime = s, open' = open' r, high = high r, low = low r,
                close = close r, volume = volume r \<rparr>)"

text \<open>
  The rows of one \<^verbatim>\<open>executemany\<close>, one after the other: bind, then write. The first
  exception ends the statement.
\<close>

fun execute_rows :: "bool \<Rightarrow> cell row list \<Rightarrow> table \<Rightarrow> py_error + table" where
  "execute_rows fails [] tbl = Inr tbl"
| "execute_rows fails (r # rs) tbl =
     (case bind_parameters r of
        Inl e \<Rightarrow> Inl e
      | Inr r' \<Rightarrow>
          if fails then Inl (OperationalError ''write failed'')
          else execute_rows fails rs (insert_or_ignore r' tbl))"

text \<open>
  \<^verbatim>\<open>cursor.executemany\<close> followed by \<^verbatim>\<open>conn.commit()\<close>. When the table is missing or a row
  raises, the commit is not reached and nothing is stored.
\<close>

definition executemany_insert_or_ignore ::
  "world \<Rightarrow> string \<Rightarrow> cell row list \<Rightarrow> database \<Rightarrow> py_error + database" where
  "executemany_insert_or_ignore w name rs dbase =
     (case map_of dbase name of
        None \<Rightarrow> Inl (OperationalError ''no such table'')
      | Some tbl \<Rightarrow>
          (case execute_rows (write_fails w name) rs tbl of
             Inl e \<Rightarrow> Inl e
           | Inr tbl' \<Rightarrow> Inr (AList.update name tbl' dbase)))"

text \<open>\<^verbatim>\<open>SELECT ... ORDER BY datetime DESC LIMIT n\<close>; text keys compare bytewise.\<close>

definition select_order_by_datetime_desc_limit ::
  "nat \<Rightarrow> string \<Rightarrow> database \<Rightarrow> py_error + table" where
  "select_order_by_datetime_desc_limit n name dbase =
     (case map_of dbase name of
        None \<Rightarrow> Inl (OperationalError ''no such table'')
      | Some tbl \<Rightarrow> Inr (take n (rev (sort_key datetime tbl))))"

section \<open>Database functions of the scripts\<close>

definition STOCKS :: "string list" where
  "STOCKS =
    [''RELIANCE.NS'', ''HDFCBANK.NS'', ''ICICIBANK.NS'', ''INFY.NS'', ''TCS.NS'',
     ''ITC.NS'', ''HINDUNILVR.NS'', ''SBIN.NS'', ''BHARTIARTL.NS'', ''KOTAKBANK.NS'',
     ''LT.NS'', ''AXISBANK.NS'', ''BAJFINANCE.NS'', ''ASIANPAINT.NS'', ''MARUTI.NS'',
     ''SUNPHARMA.NS'', ''WIPRO.NS'', ''POWERGRID.NS'', ''NTPC.NS'', ''ONGC.NS'']"

text \<open>\<^verbatim>\<open>init_db\<close> (the same in both variants): one table per symbol of \<open>STOCKS\<close>.\<close>

definition init_db :: "database \<Rightarrow> database" where
  "init_db dbase = fold create_table_if_not_exists STOCKS dbase"

text \<open>
  \<^verbatim>\<open>insert_data\<close> of \<^verbatim>\<open>data_fetch.py\<close>: the records of the frame go to \<^verbatim>\<open>executemany\<close> as they
  are, the \<^verbatim>\<open>datetime\<close> column still holding the timestamps that \<^verbatim>\<open>fetch_stock_data\<close> left
  there. The function has no \<^verbatim>\<open>return\<close> statement: its value is \<^verbatim>\<open>None\<close>, so the model returns
  only the new database (or the exception).
\<close>

definition insert_data ::
  "world \<Rightarrow> string \<Rightarrow> pydatetime row list \<Rightarrow> database \<Rightarrow> py_error + database" where
  "insert_data w stock df dbase =
     (let rows = map (to_record Timestamp) df
      in executemany_insert_or_ignore w stock rows dbase)"

text \<open>
  \<^verbatim>\<open>insert_data\<close> of \<^verbatim>\<open>data_fetch_v1.py\<close>: the \<^verbatim>\<open>datetime\<close> column is turned into text first, and
  after the commit the number of submitted records is logged. It returns \<^verbatim>\<open>None\<close> as well.
\<close>

definition insert_data_v1 ::
  "world \<Rightarrow> string \<Rightarrow> pydatetime row list \<Rightarrow> database \<Rightarrow> py_error + (database \<times> log_record list)" where
  "insert_data_v1 w stock df dbase =
     (let df' = map (datetime_as_text (text_of w)) df;
          rows = map (to_record Str) df'
      in (case executemany_insert_or_ignore w stock rows dbase of
            Inl e \<Rightarrow> Inl e
          | Inr dbase' \<Rightarrow> Inr (dbase', [(INFO, Inserted_duplicates_ignored stock (length rows))])))"

section \<open>Data fetching\<close>

subsection \<open>The pandas steps both variants share\<close>

text \<open>\<^verbatim>\<open>df.empty\<close>: an axis of length zero.\<close>

definition empty_frame :: "raw_frame \<Rightarrow> bool" where
  "empty_frame df = (bars df = [] \<or> column_names df = [])"

text \<open>\<^verbatim>\<open>df.reset_index(inplace=True)\<close> turns the index into a column; the name must be free.\<close>

definition reset_index :: "raw_frame \<Rightarrow> py_error + raw_frame" where
  "reset_index df =
     (if index_name df \<in> set (column_names df) then Inl ValueError else Inr df)"

text \<open>
  \<^verbatim>\<open>df["Datetime"] = df["Datetime"].dt.tz_convert(IST)\<close>, IST being UTC+05:30 all year: the
  column must exist, hold timestamps (only the former index does) and carry a timezone.
\<close>

definition IST :: int where
  "IST = 330"

definition tz_convert_IST :: "raw_frame \<Rightarrow> py_error + raw_frame" where
  "tz_convert_IST df =
     (if index_name df \<noteq> ''Datetime'' then
        (if ''Datetime'' \<in> set (column_names df) then Inl AttributeError
         else Inl (KeyError ''Datetime''))
      else
        (case index_tz df of
           None \<Rightarrow> Inl TypeError
         | Some off \<Rightarrow>
             Inr (df\<lparr> index_tz := Some IST,
                      bars := map (\<lambda>r. r\<lparr>datetime := add_minutes (datetime r) (IST - off)\<rparr>)
                                (bars df) \<rparr>)))"

text \<open>
  \<^verbatim>\<open>df.rename(columns={...})\<close> and the selection of the columns \<^verbatim>\<open>datetime\<close>, \<^verbatim>\<open>open\<close>,
  \<^verbatim>\<open>high\<close>, \<^verbatim>\<open>low\<close>, \<^verbatim>\<open>close\<close>, \<^verbatim>\<open>volume\<close> by a list of names, which raises for the first
  column that is missing after the renaming.
\<close>

definition rename_column :: "string \<Rightarrow> string" where
  "rename_column c =
     (if c = ''Datetime'' then ''datetime''
      else if c = ''Open'' then ''open''
      else if c = ''High'' then ''high''
      else if c = ''Low'' then ''low''
      else if c = ''Close'' then ''close''
      else if c = ''Volume'' then ''volume''
      else c)"

fun first_missing :: "string list \<Rightarrow> string list \<Rightarrow> string option" where
  "first_missing [] have = None"
| "first_missing (c # cs) have = (if c \<in> set have then first_missing cs have else Some c)"

definition select_columns :: "raw_frame \<Rightarrow> pydatetime row list \<Rightarrow> py_error + pydatetime row list" where
  "select_columns df rs =
     (case first_missing [''datetime'', ''open'', ''high'', ''low'', ''close'', ''volume'']
             (map rename_column (index_name df # column_names df)) of
        Some c \<Rightarrow> Inl (KeyError c)
      | None \<Rightarrow> Inr rs)"

subsection \<open>\<^verbatim>\<open>fetch_stock_data\<close> of \<^verbatim>\<open>data_fetch.py\<close>\<close>

text \<open>
  The body of the \<^verbatim>\<open>try\<close> block: \<open>Inl\<close> is an exception on its way to the handler, \<open>Inr\<close> the
  returned value (\<open>None\<close> for Python's \<^verbatim>\<open>None\<close>) with the records logged on the way.
\<close>

definition fetch_stock_data_try ::
  "world \<Rightarrow> string \<Rightarrow> py_error + (pydatetime row list option \<times> log_record list)" where
  "fetch_stock_data_try w stock =
     (case download w stock of
        Inl e \<Rightarrow> Inl e
      | Inr df \<Rightarrow>
          if empty_frame df then Inr (None, [(WARNING, No_data_returned stock)])
          else
            (case reset_index df of
               Inl e \<Rightarrow> Inl e
             | Inr df1 \<Rightarrow>
                 (case tz_convert_IST df1 of
                    Inl e \<Rightarrow> Inl e
                  | Inr df2 \<Rightarrow>
                      (case select_columns df2 (bars df2) of
                         Inl e \<Rightarrow> Inl e
                       | Inr rs \<Rightarrow> Inr (Some rs, [])))))"

text \<open>The function: \<^verbatim>\<open>except Exception as e\<close> logs the error and returns \<^verbatim>\<open>None\<close>.\<close>

definition fetch_stock_data ::
  "world \<Rightarrow> string \<Rightarrow> pydatetime row list option \<times> log_record list" where
  "fetch_stock_data w stock =
     (case fetch_stock_data_try w stock of
        Inl e \<Rightarrow> (None, [(ERROR, Error_fetching stock e)])
      | Inr result \<Rightarrow> result)"

subsection \<open>\<^verbatim>\<open>fetch_stock_data\<close> of \<^verbatim>\<open>data_fetch_v1.py\<close>\<close>

text \<open>
  The names bound in the module's global namespace when \<^verbatim>\<open>main()\<close> runs: the imports
  (\<^verbatim>\<open>from datetime import datetime\<close> binds \<^verbatim>\<open>datetime\<close> only), the constants and the five
  functions. Evaluating any other name that is no builtin raises \<^verbatim>\<open>NameError\<close>.
\<close>

definition module_globals_v1 :: "string list" where
  "module_globals_v1 =
     [''os'', ''sqlite3'', ''logging'', ''datetime'', ''pytz'', ''yf'', ''pd'', ''tabulate'',
      ''DB_NAME'', ''README_FILE'', ''STOCKS'', ''IST'',
      ''init_db'', ''insert_data'', ''fetch_stock_data'', ''update_readme'', ''main'']"

definition load_global_v1 :: "string \<Rightarrow> py_error + unit" where
  "load_global_v1 name =
     (if name \<in> set module_globals_v1 then Inr () else Inl (NameError name))"

text \<open>
  The window of lines 105 to 112. \<open>end_time\<close> needs only \<^verbatim>\<open>now.replace\<close>; \<open>start_time\<close> needs
  the name \<^verbatim>\<open>timedelta\<close>. (The \<^verbatim>\<open>print\<close> of line 122 writes to standard output only and is
  left out of \<open>fetch_stock_data_try_v1\<close>.)
\<close>

definition end_time_v1 :: "pydatetime \<Rightarrow> pydatetime" where
  "end_time_v1 now =
     (let minute' = (minute now div 15) * 15
      in now\<lparr>minute := minute', second := 0, microsecond := 0\<rparr>)"

definition start_time_v1 :: "pydatetime \<Rightarrow> py_error + pydatetime" where
  "start_time_v1 end_time =
     (case load_global_v1 ''timedelta'' of
        Inl e \<Rightarrow> Inl e
      | Inr _ \<Rightarrow> Inr (add_minutes end_time (- 15)))"

definition fetch_stock_data_try_v1 ::
  "world \<Rightarrow> string \<Rightarrow> py_error + (pydatetime row list option \<times> log_record list)" where
  "fetch_stock_data_try_v1 w stock =
     (case download w stock of
        Inl e \<Rightarrow> Inl e
      | Inr df \<Rightarrow>
          if empty_frame df then Inr (None, [(WARNING, No_data_returned stock)])
          else
            (case reset_index df of
               Inl e \<Rightarrow> Inl e
             | Inr df1 \<Rightarrow>
                 (case tz_convert_IST df1 of
                    Inl e \<Rightarrow> Inl e
                  | Inr df2 \<Rightarrow>
                      (let now = now_at w stock;
                           end_time = end_time_v1 now
                       in (case start_time_v1 end_time of
                             Inl e \<Rightarrow> Inl e
                           | Inr start_time \<Rightarrow>
                               (let df_window =
                                      filter (\<lambda>r. dt_le start_time (datetime r) \<and>
                                                   dt_less (datetime r) end_time)
                                        (bars df2)
                                in (case select_columns df2 df_window of
                                      Inl e \<Rightarrow> Inl e
                                    | Inr rs \<Rightarrow> Inr (Some rs, []))))))))"

definition fetch_stock_data_v1 ::
  "world \<Rightarrow> string \<Rightarrow> pydatetime row list option \<times> log_record list" where
  "fetch_stock_data_v1 w stock =
     (case fetch_stock_data_try_v1 w stock of
        Inl e \<Rightarrow> (None, [(ERROR, Error_fetching stock e)])
      | Inr result \<Rightarrow> result)"

section \<open>README update\<close>

text \<open>
  The README is kept as what is written into it: the time of the "Last updated" line and
  one section per symbol, made of the symbol and the rows of its table. The layout of the
  text (\<^verbatim>\<open>tabulate\<close>, the tags of the v1 table) is not modelled.
\<close>

record 'r readme =
  last_updated :: pydatetime
  sections :: "(string \<times> 'r list) list"

text \<open>
  The loop of \<^verbatim>\<open>update_readme\<close> in \<^verbatim>\<open>data_fetch.py\<close>, with the query
  \<^verbatim>\<open>SELECT * FROM '{stock}' ORDER BY datetime DESC LIMIT 2\<close>. An exception inside the \<^verbatim>\<open>try\<close>
  is logged and the loop goes on; an empty result is skipped by \<^verbatim>\<open>continue\<close>.
\<close>

fun update_readme_loop ::
  "database \<Rightarrow> string list \<Rightarrow> (string \<times> string row list) list \<times> log_record list" where
  "update_readme_loop dbase [] = ([], [])"
| "update_readme_loop dbase (stock # rest) =
     (let (secs, lg) = update_readme_loop dbase rest
      in (case select_order_by_datetime_desc_limit 2 stock dbase of
            Inl e \<Rightarrow> (secs, (ERROR, Error_updating_readme stock e) # lg)
          | Inr df \<Rightarrow> if df = [] then (secs, lg) else ((stock, df) # secs, lg)))"

definition update_readme :: "world \<Rightarrow> database \<Rightarrow> string row readme \<times> log_record list" where
  "update_readme w dbase =
     (let (secs, lg) = update_readme_loop dbase STOCKS
      in (\<lparr> last_updated = now_readme w, sections = secs \<rparr>, lg))"

text \<open>
  The same in \<^verbatim>\<open>data_fetch_v1.py\<close>, where the query is
  \<^verbatim>\<open>SELECT datetime, close, volume FROM '{table_name}' ORDER BY datetime DESC LIMIT 2\<close> and
  \<^verbatim>\<open>table_name = stock.replace(".NS", ".NS")\<close> is the symbol itself.
\<close>

definition datetime_close_volume :: "string row \<Rightarrow> string \<times> real \<times> int" where
  "datetime_close_volume r = (datetime r, close r, volume r)"

fun update_readme_loop_v1 ::
  "database \<Rightarrow> string list \<Rightarrow> (string \<times> (string \<times> real \<times> int) list) list \<times> log_record list" where
  "update_readme_loop_v1 dbase [] = ([], [])"
| "update_readme_loop_v1 dbase (stock # rest) =
     (let (secs, lg) = update_readme_loop_v1 dbase rest;
          table_name = stock
      in (case select_order_by_datetime_desc_limit 2 table_name dbase of
            Inl e \<Rightarrow> (secs, (ERROR, Error_updating_readme stock e) # lg)
          | Inr rs \<Rightarrow>
              (let df = map datetime_close_volume rs
               in if df = [] then (secs, lg) else ((stock, df) # secs, lg))))"

definition update_readme_v1 ::
  "world \<Rightarrow> database \<Rightarrow> (string \<times> real \<times> int) readme \<times> log_record list" where
  "update_readme_v1 w dbase =
     (let (secs, lg) = update_readme_loop_v1 dbase STOCKS
      in (\<lparr> last_updated = now_readme w, sections = secs \<rparr>, lg))"

section \<open>Main workflow\<close>

text \<open>
  What a run reads and changes: the database file, the log file and the README file, the
  last as the list of the contents written to it so far (one entry per call of
  \<^verbatim>\<open>update_readme\<close>).
\<close>

record 'r state =
  db :: database
  log :: "log_record list"
  readme_writes :: "'r readme list"

text \<open>
  The \<^verbatim>\<open>for stock in STOCKS\<close> loop of \<^verbatim>\<open>main\<close>. The call of \<^verbatim>\<open>insert_data\<close> stands in no
  \<^verbatim>\<open>try\<close>: an exception it raises leaves \<^verbatim>\<open>main\<close>, which is the result \<open>Inl\<close> with the state
  reached so far.
\<close>

fun main_loop :: "world \<Rightarrow> string list \<Rightarrow> 'r state \<Rightarrow> (py_error \<times> 'r state) + 'r state" where
  "main_loop w [] st = Inr st"
| "main_loop w (stock # rest) st =
     (let (df, lg) = fetch_stock_data w stock;
          st1 = st\<lparr>log := log st @ lg\<rparr>
      in (case df of
            None \<Rightarrow> main_loop w rest (st1\<lparr>log := log st1 @ [(WARNING, No_data_to_insert stock)]\<rparr>)
          | Some rows \<Rightarrow>
              if rows = [] then
                main_loop w rest (st1\<lparr>log := log st1 @ [(WARNING, No_data_to_insert stock)]\<rparr>)
              else
                (case insert_data w stock rows (db st1) of
                   Inl e \<Rightarrow> Inl (e, st1)
                 | Inr dbase' \<Rightarrow>
                     main_loop w rest
                       (st1\<lparr>db := dbase',
                            log := log st1 @ [(INFO, Inserted_rows stock (length rows))]\<rparr>))))"

definition main :: "world \<Rightarrow> string row state \<Rightarrow> (py_error \<times> string row state) + string row state" where
  "main w st =
     (let st0 = st\<lparr>log := log st @ [(INFO, Starting_cycle)]\<rparr>;
          st1 = st0\<lparr>db := init_db (db st0)\<rparr>
      in (case main_loop w STOCKS st1 of
            Inl crash \<Rightarrow> Inl crash
          | Inr st2 \<Rightarrow>
              (let (content, lg) = update_readme w (db st2)
               in Inr (st2\<lparr>readme_writes := readme_writes st2 @ [content],
                           log := log st2 @ lg @ [(INFO, Cycle_complete)]\<rparr>))))"

text \<open>The same for \<^verbatim>\<open>data_fetch_v1.py\<close>, whose \<^verbatim>\<open>insert_data\<close> logs a record of its own.\<close>

fun main_loop_v1 :: "world \<Rightarrow> string list \<Rightarrow> 'r state \<Rightarrow> (py_error \<times> 'r state) + 'r state" where
  "main_loop_v1 w [] st = Inr st"
| "main_loop_v1 w (stock # rest) st =
     (let (df, lg) = fetch_stock_data_v1 w stock;
          st1 = st\<lparr>log := log st @ lg\<rparr>
      in (case df of
            None \<Rightarrow> main_loop_v1 w rest (st1\<lparr>log := log st1 @ [(WARNING, No_data_to_insert stock)]\<rparr>)
          | Some rows \<Rightarrow>
              if rows = [] then
                main_loop_v1 w rest (st1\<lparr>log := log st1 @ [(WARNING, No_data_to_insert stock)]\<rparr>)
              else
                (case insert_data_v1 w stock rows (db st1) of
                   Inl e \<Rightarrow> Inl (e, st1)
                 | Inr (dbase', lg') \<Rightarrow>
                     main_loop_v1 w rest
                       (st1\<lparr>db := dbase',
                            log := log st1 @ lg' @ [(INFO, Inserted_rows stock (length rows))]\<rparr>))))"

definition main_v1 ::
  "world \<Rightarrow> (string \<times> real \<times> int) state \<Rightarrow>
     (py_error \<times> (string \<times> real \<times> int) state) + (string \<times> real \<times> int) state" where
  "main_v1 w st =
     (let st0 = st\<lparr>log := log st @ [(INFO, Starting_cycle)]\<rparr>;
          st1 = st0\<lparr>db := init_db (db st0)\<rparr>
      in (case main_loop_v1 w STOCKS st1 of
            Inl crash \<Rightarrow> Inl crash
          | Inr st2 \<Rightarrow>
              (let (content, lg) = update_readme_v1 w (db st2)
               in Inr (st2\<lparr>readme_writes := readme_writes st2 @ [content],
                           log := log st2 @ lg @ [(INFO, Cycle_complete)]\<rparr>))))"

section \<open>Sequences of store operations\<close>

text \<open>
  The operations a process can run against the database file, in any order and number.
  A call of \<^verbatim>\<open>insert_data\<close> that raises commits nothing; \<^verbatim>\<open>update_readme\<close> issues only
  \<^verbatim>\<open>SELECT\<close> statements.
\<close>

datatype store_op =
    Init_db
  | Insert_data string "pydatetime row list"
  | Insert_data_v1 string "pydatetime row list"
  | Update_readme
  | Update_readme_v1

fun apply_op :: "world \<Rightarrow> store_op \<Rightarrow> database \<Rightarrow> database" where
  "apply_op w Init_db dbase = init_db dbase"
| "apply_op w (Insert_data stock df) dbase =
     (case insert_data w stock df dbase of Inl e \<Rightarrow> dbase | Inr dbase' \<Rightarrow> dbase')"
| "apply_op w (Insert_data_v1 stock df) dbase =
     (case insert_data_v1 w stock df dbase of Inl e \<Rightarrow> dbase | Inr (dbase', lg) \<Rightarrow> dbase')"
| "apply_op w Update_readme dbase = dbase"
| "apply_op w Update_readme_v1 dbase = dbase"

definition apply_ops :: "world \<Rightarrow> store_op list \<Rightarrow> database \<Rightarrow> database" where
  "apply_ops w ops dbase = fold (apply_op w) ops dbase"

text \<open>The key column of a table holds no value twice.\<close>

definition unique_keys :: "table \<Rightarrow> bool" where
  "unique_keys tbl = distinct (map datetime tbl)"

text \<open>Every table of a database has unique keys.\<close>

definition db_unique :: "database \<Rightarrow> bool" where
  "db_unique dbase = (\<forall>name tbl. map_of dbase name = Some tbl \<longrightarrow> unique_keys tbl)"

section \<open>Example data\<close>

text \<open>
  Rows of 1 January 2024 (ordinal 738886) and a world for the worked examples. Its
  \<open>text_of\<close> writes the time of day, which tells the example rows apart.
\<close>

definition two_digits :: "nat \<Rightarrow> string" where
  "two_digits n = [''0123456789'' ! (n div 10 mod 10), ''0123456789'' ! (n mod 10)]"

definition clock_text :: "pydatetime \<Rightarrow> string" where
  "clock_text d = two_digits (hour d) @ '':'' @ two_digits (minute d) @ '':'' @ two_digits (second d)"

definition at_time :: "nat \<Rightarrow> nat \<Rightarrow> pydatetime" where
  "at_time h m = \<lparr> date_ordinal = 738886, hour = h, minute = m, second = 0, microsecond = 0 \<rparr>"

definition bar :: "nat \<Rightarrow> nat \<Rightarrow> real \<Rightarrow> pydatetime row" where
  "bar h m px =
     \<lparr> datetime = at_time h m, open' = px, high = px, low = px, close = px, volume = 100 \<rparr>"

definition stored :: "nat \<Rightarrow> nat \<Rightarrow> real \<Rightarrow> string row" where
  "stored h m px = datetime_as_text clock_text (bar h m px)"

definition frame_of :: "pydatetime row list \<Rightarrow> raw_frame" where
  "frame_of rs =
     \<lparr> index_name = ''Datetime'', index_tz = Some 330,
       column_names = [''Open'', ''High'', ''Low'', ''Close'', ''Volume''], bars = rs \<rparr>"

text \<open>
  In \<open>example_world\<close> the provider has two bars for RELIANCE.NS, raises for HDFCBANK.NS and
  has no rows for the other symbols; it is 10:07.
\<close>

definition example_world :: world where
  "example_world =
     \<lparr> download = (\<lambda>stock.
         if stock = ''RELIANCE.NS'' then Inr (frame_of [bar 9 45 100, bar 9 46 101])
         else if stock = ''HDFCBANK.NS'' then Inl ProviderError
         else Inr (frame_of [])),
       now_at = (\<lambda>stock. at_time 10 7),
       now_readme = at_time 10 8,
       text_of = clock_text,
       write_fails = (\<lambda>stock. False) \<rparr>"

text \<open>
  In \<open>no_rows_world\<close> the provider raises for HDFCBANK.NS and has no rows for any other
  symbol. In \<open>naive_world\<close> the frame of RELIANCE.NS has an index without timezone.
\<close>

definition no_rows_world :: world where
  "no_rows_world =
     example_world\<lparr> download := (\<lambda>stock.
         if stock = ''HDFCBANK.NS'' then Inl ProviderError else Inr (frame_of [])) \<rparr>"

definition naive_world :: world where
  "naive_world =
     example_world\<lparr> download := (\<lambda>stock.
         if stock = ''RELIANCE.NS''
         then Inr ((frame_of [bar 9 45 100, bar 9 46 101])\<lparr> index_tz := None \<rparr>)
         else Inr (frame_of [])) \<rparr>"

definition empty_state :: "'r state" where
  "empty_state = \<lparr> db = [], log = [], readme_writes = [] \<rparr>"

section \<open>Properties of the store\<close>

subsection \<open>Inserting with \<^verbatim>\<open>OR IGNORE\<close>\<close>

lemma keys_insert_or_ignore:
  "set (map datetime (insert_or_ignore r tbl)) = insert (datetime r) (set (map datetime tbl))"
  by (auto simp: insert_or_ignore_def)

lemma keys_fold_insert_or_ignore:
  "set (map datetime (fold insert_or_ignore rs tbl)) = set (map datetime tbl) \<union> set (map datetime rs)"
  by (induction rs arbitrary: tbl) (auto simp: keys_insert_or_ignore simp del: set_map)

lemma fold_insert_or_ignore_present:
  "set (map datetime rs) \<subseteq> set (map datetime tbl) \<Longrightarrow> fold insert_or_ignore rs tbl = tbl"
  by (induction rs arbitrary: tbl) (auto simp: insert_or_ignore_def)

lemma fold_insert_or_ignore_idem:
  "fold insert_or_ignore rs (fold insert_or_ignore rs tbl) = fold insert_or_ignore rs tbl"
  by (rule fold_insert_or_ignore_present) (simp add: keys_fold_insert_or_ignore del: set_map)

lemma distinct_insert_or_ignore:
  "distinct (map datetime tbl) \<Longrightarrow> distinct (map datetime (insert_or_ignore r tbl))"
  by (auto simp: insert_or_ignore_def)

lemma distinct_fold_insert_or_ignore:
  "distinct (map datetime tbl) \<Longrightarrow> distinct (map datetime (fold insert_or_ignore rs tbl))"
  by (induction rs arbitrary: tbl) (auto simp: distinct_insert_or_ignore simp del: set_map)

subsection \<open>Binding and \<^verbatim>\<open>executemany\<close>\<close>

lemma bind_parameters_Str: "bind_parameters (to_record Str r) = Inr r"
  by (simp add: bind_parameters_def to_record_def)

lemma bind_parameters_Timestamp:
  "bind_parameters (to_record Timestamp r) = Inl (ProgrammingError ''type Timestamp is not supported'')"
  by (simp add: bind_parameters_def to_record_def)

lemma execute_rows_Str:
  "execute_rows False (map (to_record Str) rs) tbl = Inr (fold insert_or_ignore rs tbl)"
  by (induction rs arbitrary: tbl) (simp_all add: bind_parameters_Str)

lemma execute_rows_Str_fails:
  "rs \<noteq> [] \<Longrightarrow> execute_rows True (map (to_record Str) rs) tbl = Inl (OperationalError ''write failed'')"
  by (cases rs) (simp_all add: bind_parameters_Str)

lemma execute_rows_Timestamp:
  "df \<noteq> [] \<Longrightarrow> execute_rows fails (map (to_record Timestamp) df) tbl
     = Inl (ProgrammingError ''type Timestamp is not supported'')"
  by (cases df) (simp_all add: bind_parameters_Timestamp)

lemma execute_rows_distinct:
  "execute_rows fails rs tbl = Inr tbl' \<Longrightarrow> distinct (map datetime tbl) \<Longrightarrow>
   distinct (map datetime tbl')"
  by (induction rs arbitrary: tbl)
    (auto simp: distinct_insert_or_ignore split: sum.splits if_splits simp del: set_map)

text \<open>
  \<^verbatim>\<open>insert_data\<close> of \<^verbatim>\<open>data_fetch.py\<close> raises on every frame that holds a row, before anything
  is written.
\<close>

lemma insert_data_cases:
  "insert_data w stock df dbase =
     (case map_of dbase stock of
        None \<Rightarrow> Inl (OperationalError ''no such table'')
      | Some tbl \<Rightarrow>
          if df = [] then Inr dbase
          else Inl (ProgrammingError ''type Timestamp is not supported''))"
  by (auto simp: insert_data_def executemany_insert_or_ignore_def execute_rows_Timestamp
      AList.update_triv split: option.splits)

lemma insert_data_v1_cases:
  "insert_data_v1 w stock df dbase =
     (case map_of dbase stock of
        None \<Rightarrow> Inl (OperationalError ''no such table'')
      | Some tbl \<Rightarrow>
          if df \<noteq> [] \<and> write_fails w stock then Inl (OperationalError ''write failed'')
          else Inr (AList.update stock
                      (fold insert_or_ignore (map (datetime_as_text (text_of w)) df) tbl) dbase,
                    [(INFO, Inserted_duplicates_ignored stock (length df))]))"
proof (cases "map_of dbase stock")
  case None
  then show ?thesis
    by (simp add: insert_data_v1_def executemany_insert_or_ignore_def)
next
  case (Some tbl)
  show ?thesis
  proof (cases "write_fails w stock")
    case False
    then show ?thesis using Some
      by (simp add: insert_data_v1_def executemany_insert_or_ignore_def execute_rows_Str)
  next
    case True
    show ?thesis
    proof (cases "df = []")
      case True
      then show ?thesis using Some
        by (simp add: insert_data_v1_def executemany_insert_or_ignore_def)
    next
      case False
      then have "map (to_record Str) (map (datetime_as_text (text_of w)) df) \<noteq> []" by simp
      then have "execute_rows True (map (to_record Str) (map (datetime_as_text (text_of w)) df)) tbl
          = Inl (OperationalError ''write failed'')"
        using execute_rows_Str_fails [of "map (datetime_as_text (text_of w)) df" tbl] by simp
      then show ?thesis using Some True False
        by (simp add: insert_data_v1_def executemany_insert_or_ignore_def)
    qed
  qed
qed

lemma datetime_as_text_key [simp]: "datetime (datetime_as_text f r) = f (datetime r)"
  by (simp add: datetime_as_text_def)

lemmas example_defs = example_world_def bar_def at_time_def stored_def
  clock_text_def two_digits_def datetime_as_text_def frame_of_def

subsection \<open>Running \<^verbatim>\<open>insert_data\<close> again\<close>

text \<open>
  In \<^verbatim>\<open>data_fetch_v1.py\<close> a second run of \<^verbatim>\<open>insert_data\<close> with the same frame leaves the
  database that the first run produced, and on an empty table a batch for T1, T2 followed
  by a batch for T2, T3 leaves one row for each of T1, T2, T3, the one that came first.
\<close>

lemma insert_data_v1_idempotent:
  assumes "insert_data_v1 w stock df dbase = Inr (dbase', lg)"
  shows "insert_data_v1 w stock df dbase' = Inr (dbase', lg)"
proof -
  let ?rs = "map (datetime_as_text (text_of w)) df"
  from assms obtain tbl where t: "map_of dbase stock = Some tbl"
    and f: "\<not> (df \<noteq> [] \<and> write_fails w stock)"
    and d: "dbase' = AList.update stock (fold insert_or_ignore ?rs tbl) dbase"
    and l: "lg = [(INFO, Inserted_duplicates_ignored stock (length df))]"
    by (auto simp: insert_data_v1_cases split: option.splits if_splits)
  have "map_of dbase' stock = Some (fold insert_or_ignore ?rs tbl)"
    by (simp add: d AList.update_conv')
  then show ?thesis using f
    by (simp add: insert_data_v1_cases d l fold_insert_or_ignore_idem)
qed

lemma insert_data_v1_overlapping_batches:
  assumes t: "map_of dbase stock = Some []" and f: "\<not> write_fails w stock"
    and d: "distinct [text_of w (datetime r1), text_of w (datetime r2), text_of w (datetime r3)]"
    and k: "datetime r2' = datetime r2"
  shows "\<exists>d1 l1 d2 l2. insert_data_v1 w stock [r1, r2] dbase = Inr (d1, l1)
           \<and> insert_data_v1 w stock [r2', r3] d1 = Inr (d2, l2)
           \<and> map_of d2 stock = Some (map (datetime_as_text (text_of w)) [r1, r2, r3])"
proof -
  let ?f = "datetime_as_text (text_of w)"
  let ?d1 = "AList.update stock [?f r1, ?f r2] dbase"
  have 1: "insert_data_v1 w stock [r1, r2] dbase
      = Inr (?d1, [(INFO, Inserted_duplicates_ignored stock 2)])"
    using t f d by (auto simp: insert_data_v1_cases insert_or_ignore_def)
  have m: "map_of ?d1 stock = Some [?f r1, ?f r2]" by (simp add: AList.update_conv')
  have 2: "insert_data_v1 w stock [r2', r3] ?d1
      = Inr (AList.update stock [?f r1, ?f r2, ?f r3] ?d1, [(INFO, Inserted_duplicates_ignored stock 2)])"
    using m f d k by (auto simp: insert_data_v1_cases insert_or_ignore_def)
  have "map_of (AList.update stock [?f r1, ?f r2, ?f r3] ?d1) stock = Some (map ?f [r1, r2, r3])"
    by (simp add: AList.update_conv')
  with 1 2 show ?thesis by blast
qed

text \<open>
  Claim C1. In \<^verbatim>\<open>data_fetch.py\<close> the two batches of the claim store nothing: \<^verbatim>\<open>insert_data\<close>
  hands the timestamps to sqlite3 as they are, the first record cannot be bound, and the
  table is as empty after the two calls as before.
\<close>

theorem insert_data_stores_no_timestamp_rows:
  "insert_data example_world ''TCS.NS'' [bar 10 0 1, bar 10 1 2] [(''TCS.NS'', [])]
     = Inl (ProgrammingError ''type Timestamp is not supported'')
   \<and> insert_data example_world ''TCS.NS'' [bar 10 1 2, bar 10 2 3] [(''TCS.NS'', [])]
     = Inl (ProgrammingError ''type Timestamp is not supported'')
   \<and> apply_ops example_world
        [Insert_data ''TCS.NS'' [bar 10 0 1, bar 10 1 2],
         Insert_data ''TCS.NS'' [bar 10 1 2, bar 10 2 3]] [(''TCS.NS'', [])]
     = [(''TCS.NS'', [])]
   \<and> apply_ops example_world
        [Insert_data_v1 ''TCS.NS'' [bar 10 0 1, bar 10 1 2],
         Insert_data_v1 ''TCS.NS'' [bar 10 1 2, bar 10 2 3]] [(''TCS.NS'', [])]
     = [(''TCS.NS'', [stored 10 0 1, stored 10 1 2, stored 10 2 3])]"
  by (simp add: apply_ops_def insert_data_cases insert_data_v1_cases insert_or_ignore_def
      example_defs)

text \<open>
  Claim C3. When the table already holds a row under the key of the incoming row, a
  single-row \<^verbatim>\<open>insert_data\<close> changes nothing in the database, whatever prices and volume the
  incoming row carries: the stored row stays as it is. In v1 the row is ignored; in
  \<^verbatim>\<open>data_fetch.py\<close> the call raises before it writes.
\<close>

theorem insert_data_first_write_wins:
  assumes "map_of dbase stock = Some tbl"
    and "text_of w (datetime r) \<in> set (map datetime tbl)"
  shows "insert_data_v1 w stock [r] dbase =
           (if write_fails w stock then Inl (OperationalError ''write failed'')
            else Inr (dbase, [(INFO, Inserted_duplicates_ignored stock 1)]))
     \<and> apply_op w (Insert_data_v1 stock [r]) dbase = dbase
     \<and> insert_data w stock [r] dbase = Inl (ProgrammingError ''type Timestamp is not supported'')
     \<and> apply_op w (Insert_data stock [r]) dbase = dbase"
proof -
  have "fold insert_or_ignore [datetime_as_text (text_of w) r] tbl = tbl"
    using assms(2) by (intro fold_insert_or_ignore_present) simp
  then have 1: "insert_data_v1 w stock [r] dbase =
           (if write_fails w stock then Inl (OperationalError ''write failed'')
            else Inr (dbase, [(INFO, Inserted_duplicates_ignored stock 1)]))"
    using assms(1) by (simp add: insert_data_v1_cases AList.update_triv)
  have 2: "insert_data w stock [r] dbase = Inl (ProgrammingError ''type Timestamp is not supported'')"
    using assms(1) by (simp add: insert_data_cases)
  from 1 2 show ?thesis by simp
qed

theorem insert_data_first_write_wins_witness:
  "insert_data_v1 example_world ''TCS.NS'' [bar 10 0 999] [(''TCS.NS'', [stored 10 0 1, stored 10 1 2])]
     = Inr ([(''TCS.NS'', [stored 10 0 1, stored 10 1 2])],
            [(INFO, Inserted_duplicates_ignored ''TCS.NS'' 1)])
   \<and> insert_data example_world ''TCS.NS'' [bar 10 0 999] [(''TCS.NS'', [stored 10 0 1, stored 10 1 2])]
     = Inl (ProgrammingError ''type Timestamp is not supported'')
   \<and> apply_op example_world (Insert_data ''TCS.NS'' [bar 10 0 999])
        [(''TCS.NS'', [stored 10 0 1, stored 10 1 2])]
     = [(''TCS.NS'', [stored 10 0 1, stored 10 1 2])]
   \<and> bar 10 0 999 \<noteq> bar 10 0 1"
proof -
  have 1: "map_of [(''TCS.NS'', [stored 10 0 1, stored 10 1 2])] ''TCS.NS''
      = Some [stored 10 0 1, stored 10 1 2]"
    by simp
  have 2: "text_of example_world (datetime (bar 10 0 999))
      \<in> set (map datetime [stored 10 0 1, stored 10 1 2])"
    by (simp add: example_defs)
  have 3: "\<not> write_fails example_world ''TCS.NS''"
    by (simp add: example_defs)
  have 4: "bar 10 0 999 \<noteq> bar 10 0 1"
    by (simp add: bar_def)
  show ?thesis
    using insert_data_first_write_wins [OF 1 2] 3 4 by simp
qed

subsection \<open>Unique keys\<close>

lemma db_unique_create: "db_unique dbase \<Longrightarrow> db_unique (create_table_if_not_exists name dbase)"
  by (auto simp: db_unique_def create_table_if_not_exists_def unique_keys_def map_add_def
      split: option.splits if_splits)

lemma db_unique_fold_create:
  "db_unique dbase \<Longrightarrow> db_unique (fold create_table_if_not_exists names dbase)"
  by (induction names arbitrary: dbase) (auto simp: db_unique_create)

lemma db_unique_executemany:
  "db_unique dbase \<Longrightarrow> executemany_insert_or_ignore w name rs dbase = Inr dbase' \<Longrightarrow> db_unique dbase'"
  by (auto simp: db_unique_def executemany_insert_or_ignore_def AList.update_conv' unique_keys_def
      split: option.splits sum.splits if_splits dest: execute_rows_distinct)

lemma db_unique_apply_op: "db_unique dbase \<Longrightarrow> db_unique (apply_op w op dbase)"
proof (cases op)
  case Init_db
  assume "db_unique dbase"
  then show ?thesis using Init_db by (simp add: init_db_def db_unique_fold_create)
next
  case (Insert_data stock df)
  assume "db_unique dbase"
  then show ?thesis using Insert_data
    by (auto simp: insert_data_def split: sum.splits dest: db_unique_executemany)
next
  case (Insert_data_v1 stock df)
  assume "db_unique dbase"
  then show ?thesis using Insert_data_v1
    by (auto simp: insert_data_v1_def Let_def split: sum.splits dest: db_unique_executemany)
qed simp_all

lemma db_unique_apply_ops: "db_unique dbase \<Longrightarrow> db_unique (apply_ops w ops dbase)"
  unfolding apply_ops_def
  by (induction ops arbitrary: dbase) (auto simp: db_unique_apply_op)

lemma init_db_empty: "init_db [] = map (\<lambda>s. (s, [])) STOCKS"
  by (simp add: init_db_def STOCKS_def create_table_if_not_exists_def)

text \<open>
  Claim C2. Starting from the empty database, after any sequence of \<^verbatim>\<open>init_db\<close>,
  \<^verbatim>\<open>insert_data\<close> (of either variant, with any symbol and frame) and \<^verbatim>\<open>update_readme\<close>, no
  table holds two rows with the same \<^verbatim>\<open>datetime\<close>.
\<close>

theorem key_uniqueness:
  "map_of (apply_ops w ops []) stock = Some tbl \<Longrightarrow> unique_keys tbl"
proof -
  have "db_unique []" by (simp add: db_unique_def)
  then have "db_unique (apply_ops w ops [])" by (rule db_unique_apply_ops)
  then show "map_of (apply_ops w ops []) stock = Some tbl \<Longrightarrow> unique_keys tbl"
    by (simp add: db_unique_def)
qed

theorem key_uniqueness_witness:
  "map_of (apply_ops example_world
       [Init_db, Insert_data_v1 ''RELIANCE.NS'' [bar 10 0 1, bar 10 0 2, bar 10 1 3], Update_readme,
        Insert_data ''RELIANCE.NS'' [bar 10 5 9],
        Insert_data_v1 ''RELIANCE.NS'' [bar 10 1 4, bar 10 2 5]] []) ''RELIANCE.NS''
     = Some [stored 10 0 1, stored 10 1 3, stored 10 2 5]
   \<and> unique_keys [stored 10 0 1, stored 10 1 3, stored 10 2 5]"
proof -
  have "map_of (apply_ops example_world
       [Init_db, Insert_data_v1 ''RELIANCE.NS'' [bar 10 0 1, bar 10 0 2, bar 10 1 3], Update_readme,
        Insert_data ''RELIANCE.NS'' [bar 10 5 9],
        Insert_data_v1 ''RELIANCE.NS'' [bar 10 1 4, bar 10 2 5]] []) ''RELIANCE.NS''
     = Some [stored 10 0 1, stored 10 1 3, stored 10 2 5]"
    by (simp add: apply_ops_def init_db_empty STOCKS_def insert_data_cases insert_data_v1_cases
        insert_or_ignore_def example_defs)
  then show ?thesis using key_uniqueness by blast
qed

section \<open>Properties of the fetch step\<close>

lemma start_time_v1_NameError: "start_time_v1 end_time = Inl (NameError ''timedelta'')"
  by (simp add: start_time_v1_def load_global_v1_def module_globals_v1_def)

lemma fetch_stock_data_try_v1_cases:
  "fetch_stock_data_try_v1 w stock = Inr (None, [(WARNING, No_data_returned stock)])
   \<or> (\<exists>e. fetch_stock_data_try_v1 w stock = Inl e)"
  by (simp add: fetch_stock_data_try_v1_def start_time_v1_NameError Let_def split: sum.splits)

lemma fetch_stock_data_v1_None: "fst (fetch_stock_data_v1 w stock) = None"
  using fetch_stock_data_try_v1_cases [of w stock]
  by (auto simp: fetch_stock_data_v1_def)

lemma main_loop_v1_no_insert:
  "\<exists>st'. main_loop_v1 w stocks st = Inr st' \<and> db st' = db st \<and> readme_writes st' = readme_writes st"
proof (induction stocks arbitrary: st)
  case Nil
  show ?case by simp
next
  case (Cons stock rest)
  obtain lg where f: "fetch_stock_data_v1 w stock = (None, lg)"
    using fetch_stock_data_v1_None [of w stock] by (cases "fetch_stock_data_v1 w stock") simp
  let ?st = "st\<lparr>log := log st @ lg @ [(WARNING, No_data_to_insert stock)]\<rparr>"
  have "main_loop_v1 w (stock # rest) st = main_loop_v1 w rest ?st"
    by (simp add: f)
  with Cons.IH [of ?st] show ?case by simp
qed

lemma map_of_create_table:
  "map_of (create_table_if_not_exists name dbase) s =
     (case map_of dbase s of Some tbl \<Rightarrow> Some tbl | None \<Rightarrow> if s = name then Some [] else None)"
  by (auto simp: create_table_if_not_exists_def map_add_def split: option.splits)

lemma map_of_fold_create_table:
  "map_of (fold create_table_if_not_exists names dbase) s =
     (case map_of dbase s of Some tbl \<Rightarrow> Some tbl | None \<Rightarrow> if s \<in> set names then Some [] else None)"
  by (induction names arbitrary: dbase) (auto simp: map_of_create_table split: option.splits)

lemma map_of_init_db:
  "map_of (init_db dbase) s =
     (case map_of dbase s of Some tbl \<Rightarrow> Some tbl | None \<Rightarrow> if s \<in> set STOCKS then Some [] else None)"
  by (simp add: init_db_def map_of_fold_create_table)

text \<open>
  Claim C10, as amended. In \<^verbatim>\<open>data_fetch_v1.py\<close> the name \<^verbatim>\<open>timedelta\<close> is never bound, so a
  download that yields a non-empty frame on which \<^verbatim>\<open>reset_index\<close> and \<^verbatim>\<open>tz_convert\<close> succeed
  (a timezone-aware index named \<^verbatim>\<open>Datetime\<close>) reaches line 109 and raises \<^verbatim>\<open>NameError\<close>, which
  the handler logs. Whatever the provider does, \<^verbatim>\<open>fetch_stock_data\<close> returns \<^verbatim>\<open>None\<close>, and a
  run of \<^verbatim>\<open>main\<close> ends with the database that \<^verbatim>\<open>init_db\<close> left: no row is inserted.
\<close>

theorem fetch_stock_data_v1_never_returns_rows:
  "fst (fetch_stock_data_v1 w stock) = None
   \<and> (download w stock = Inr df \<and> \<not> empty_frame df \<and> reset_index df = Inr df1
        \<and> tz_convert_IST df1 = Inr df2 \<longrightarrow>
        fetch_stock_data_try_v1 w stock = Inl (NameError ''timedelta'')
        \<and> fetch_stock_data_v1 w stock = (None, [(ERROR, Error_fetching stock (NameError ''timedelta''))]))
   \<and> (\<exists>st'. main_v1 w st = Inr st' \<and> db st' = init_db (db st)
        \<and> (\<forall>s. map_of (db st') s =
              (case map_of (db st) s of Some tbl \<Rightarrow> Some tbl
               | None \<Rightarrow> if s \<in> set STOCKS then Some [] else None)))"
proof (intro conjI impI)
  show "fst (fetch_stock_data_v1 w stock) = None" by (rule fetch_stock_data_v1_None)
next
  assume h: "download w stock = Inr df \<and> \<not> empty_frame df \<and> reset_index df = Inr df1
        \<and> tz_convert_IST df1 = Inr df2"
  then show t: "fetch_stock_data_try_v1 w stock = Inl (NameError ''timedelta'')"
    by (simp add: fetch_stock_data_try_v1_def start_time_v1_NameError)
  show "fetch_stock_data_v1 w stock = (None, [(ERROR, Error_fetching stock (NameError ''timedelta''))])"
    by (simp add: fetch_stock_data_v1_def t)
next
  let ?st1 = "st\<lparr>log := log st @ [(INFO, Starting_cycle)], db := init_db (db st)\<rparr>"
  obtain st2 where l: "main_loop_v1 w STOCKS ?st1 = Inr st2" and d: "db st2 = init_db (db st)"
    using main_loop_v1_no_insert [of w STOCKS ?st1] by auto
  show "\<exists>st'. main_v1 w st = Inr st' \<and> db st' = init_db (db st)
        \<and> (\<forall>s. map_of (db st') s =
              (case map_of (db st) s of Some tbl \<Rightarrow> Some tbl
               | None \<Rightarrow> if s \<in> set STOCKS then Some [] else None))"
    using l d by (simp add: main_v1_def Let_def map_of_init_db split: prod.splits)
qed

lemmas pandas_defs = empty_frame_def reset_index_def tz_convert_IST_def IST_def add_minutes_def
  to_micros_def of_micros_def select_columns_def rename_column_def

lemma fetch_example_RELIANCE:
  "fetch_stock_data example_world ''RELIANCE.NS'' = (Some [bar 9 45 100, bar 9 46 101], [])"
  by (simp add: fetch_stock_data_def fetch_stock_data_try_def example_defs pandas_defs)

lemma fetch_example_HDFCBANK:
  "fetch_stock_data example_world ''HDFCBANK.NS''
     = (None, [(ERROR, Error_fetching ''HDFCBANK.NS'' ProviderError)])"
  by (simp add: fetch_stock_data_def fetch_stock_data_try_def example_defs)

lemma fetch_example_other:
  "stock \<noteq> ''RELIANCE.NS'' \<Longrightarrow> stock \<noteq> ''HDFCBANK.NS'' \<Longrightarrow>
   fetch_stock_data example_world stock = (None, [(WARNING, No_data_returned stock)])"
  by (simp add: fetch_stock_data_def fetch_stock_data_try_def example_defs empty_frame_def)

lemma example_frame_steps:
  "download example_world ''RELIANCE.NS'' = Inr (frame_of [bar 9 45 100, bar 9 46 101])
   \<and> \<not> empty_frame (frame_of [bar 9 45 100, bar 9 46 101])
   \<and> reset_index (frame_of [bar 9 45 100, bar 9 46 101]) = Inr (frame_of [bar 9 45 100, bar 9 46 101])
   \<and> tz_convert_IST (frame_of [bar 9 45 100, bar 9 46 101]) = Inr (frame_of [bar 9 45 100, bar 9 46 101])"
  by (simp add: example_defs empty_frame_def reset_index_def tz_convert_IST_def IST_def
      add_minutes_def to_micros_def of_micros_def)

theorem fetch_stock_data_v1_never_returns_rows_witness:
  "download example_world ''RELIANCE.NS'' = Inr (frame_of [bar 9 45 100, bar 9 46 101])
   \<and> \<not> empty_frame (frame_of [bar 9 45 100, bar 9 46 101])
   \<and> fetch_stock_data_v1 example_world ''RELIANCE.NS''
       = (None, [(ERROR, Error_fetching ''RELIANCE.NS'' (NameError ''timedelta''))])"
  using fetch_stock_data_v1_never_returns_rows [of example_world "''RELIANCE.NS''"
      "frame_of [bar 9 45 100, bar 9 46 101]" "frame_of [bar 9 45 100, bar 9 46 101]"
      "frame_of [bar 9 45 100, bar 9 46 101]"] example_frame_steps
  by simp

text \<open>
  The claim as it stands fails for a non-empty frame whose index has no timezone: line 103
  raises \<^verbatim>\<open>TypeError\<close> before the window is reached, and that is the error logged.
\<close>

theorem fetch_stock_data_v1_counterexample:
  "download naive_world ''RELIANCE.NS''
     = Inr ((frame_of [bar 9 45 100, bar 9 46 101])\<lparr> index_tz := None \<rparr>)
   \<and> \<not> empty_frame ((frame_of [bar 9 45 100, bar 9 46 101])\<lparr> index_tz := None \<rparr>)
   \<and> fetch_stock_data_try_v1 naive_world ''RELIANCE.NS'' = Inl TypeError
   \<and> fetch_stock_data_v1 naive_world ''RELIANCE.NS''
       = (None, [(ERROR, Error_fetching ''RELIANCE.NS'' TypeError)])"
  by (simp add: fetch_stock_data_v1_def fetch_stock_data_try_v1_def naive_world_def example_defs
      empty_frame_def reset_index_def tz_convert_IST_def)

text \<open>
  The arithmetic of the window itself is as intended: the end is the current time with the
  minute floored to a multiple of 15, and a quarter of an hour back from 10:00 is 09:45.
\<close>

lemma end_time_v1_floor:
  "minute (end_time_v1 now) \<le> minute now \<and> minute now < minute (end_time_v1 now) + 15
   \<and> minute (end_time_v1 now) mod 15 = 0
   \<and> second (end_time_v1 now) = 0 \<and> microsecond (end_time_v1 now) = 0
   \<and> hour (end_time_v1 now) = hour now \<and> date_ordinal (end_time_v1 now) = date_ordinal now"
  by (simp add: end_time_v1_def Let_def)

lemma window_arithmetic:
  "end_time_v1 (at_time 10 7) = at_time 10 0"
  "add_minutes (at_time 10 0) (- 15) = at_time 9 45"
  "end_time_v1 (at_time 10 15) = at_time 10 15"
  "add_minutes (at_time 10 15) (- 15) = at_time 10 0"
  by (simp_all add: end_time_v1_def add_minutes_def to_micros_def of_micros_def at_time_def)

text \<open>
  Claim C4. At 10:07, with two bars of 09:45 and 09:46 downloaded, the aligned window would
  be 09:45 to 10:00 and keep both bars. The code computes the end 10:00, then fails on
  \<^verbatim>\<open>timedelta\<close>: no start is computed, no row is filtered, and the function returns \<^verbatim>\<open>None\<close>.
\<close>

theorem aligned_window_not_computed:
  "now_at example_world ''RELIANCE.NS'' = at_time 10 7
   \<and> end_time_v1 (at_time 10 7) = at_time 10 0
   \<and> start_time_v1 (at_time 10 0) = Inl (NameError ''timedelta'')
   \<and> fetch_stock_data_v1 example_world ''RELIANCE.NS''
       = (None, [(ERROR, Error_fetching ''RELIANCE.NS'' (NameError ''timedelta''))])"
proof -
  have "fetch_stock_data_try_v1 example_world ''RELIANCE.NS'' = Inl (NameError ''timedelta'')"
    using example_frame_steps by (simp add: fetch_stock_data_try_v1_def start_time_v1_NameError)
  then show ?thesis
    by (simp add: fetch_stock_data_v1_def start_time_v1_NameError end_time_v1_def at_time_def
        example_world_def)
qed

text \<open>
  Claim C7, as amended. \<^verbatim>\<open>fetch_stock_data\<close> returns \<^verbatim>\<open>None\<close> when the provider has no rows
  and also when the download or a later step of the \<^verbatim>\<open>try\<close> block raises; the first variant
  returns \<^verbatim>\<open>None\<close> in these cases only. The two outcomes differ in the record that is logged
  (a warning "No data returned", an error "Error fetching data"), not in the value returned.
\<close>

theorem fetch_stock_data_None_outcomes:
  "(download w stock = Inr df \<and> empty_frame df \<longrightarrow>
       fetch_stock_data w stock = (None, [(WARNING, No_data_returned stock)])
     \<and> fetch_stock_data_v1 w stock = (None, [(WARNING, No_data_returned stock)]))
   \<and> (download w stock = Inl e \<longrightarrow>
       fetch_stock_data w stock = (None, [(ERROR, Error_fetching stock e)])
     \<and> fetch_stock_data_v1 w stock = (None, [(ERROR, Error_fetching stock e)]))
   \<and> (fetch_stock_data_try w stock = Inl e \<longrightarrow>
       fetch_stock_data w stock = (None, [(ERROR, Error_fetching stock e)]))
   \<and> (fetch_stock_data_try_v1 w stock = Inl e \<longrightarrow>
       fetch_stock_data_v1 w stock = (None, [(ERROR, Error_fetching stock e)]))
   \<and> (fst (fetch_stock_data w stock) = None \<longleftrightarrow>
        (\<exists>df. download w stock = Inr df \<and> empty_frame df)
        \<or> (\<exists>e. fetch_stock_data_try w stock = Inl e))"
proof (intro conjI impI)
  assume "download w stock = Inr df \<and> empty_frame df"
  then show "fetch_stock_data w stock = (None, [(WARNING, No_data_returned stock)])"
    and "fetch_stock_data_v1 w stock = (None, [(WARNING, No_data_returned stock)])"
    by (simp_all add: fetch_stock_data_def fetch_stock_data_try_def fetch_stock_data_v1_def
        fetch_stock_data_try_v1_def)
next
  assume "download w stock = Inl e"
  then show "fetch_stock_data w stock = (None, [(ERROR, Error_fetching stock e)])"
    and "fetch_stock_data_v1 w stock = (None, [(ERROR, Error_fetching stock e)])"
    by (simp_all add: fetch_stock_data_def fetch_stock_data_try_def fetch_stock_data_v1_def
        fetch_stock_data_try_v1_def)
next
  assume "fetch_stock_data_try w stock = Inl e"
  then show "fetch_stock_data w stock = (None, [(ERROR, Error_fetching stock e)])"
    by (simp add: fetch_stock_data_def)
next
  assume "fetch_stock_data_try_v1 w stock = Inl e"
  then show "fetch_stock_data_v1 w stock = (None, [(ERROR, Error_fetching stock e)])"
    by (simp add: fetch_stock_data_v1_def)
next
  show "fst (fetch_stock_data w stock) = None \<longleftrightarrow>
        (\<exists>df. download w stock = Inr df \<and> empty_frame df)
        \<or> (\<exists>e. fetch_stock_data_try w stock = Inl e)"
    by (auto simp: fetch_stock_data_def fetch_stock_data_try_def split: sum.splits if_splits)
qed

theorem fetch_stock_data_None_outcomes_witness:
  "download example_world ''TCS.NS'' = Inr (frame_of []) \<and> empty_frame (frame_of [])
   \<and> fetch_stock_data example_world ''TCS.NS'' = (None, [(WARNING, No_data_returned ''TCS.NS'')])
   \<and> download example_world ''HDFCBANK.NS'' = Inl ProviderError
   \<and> fetch_stock_data example_world ''HDFCBANK.NS''
       = (None, [(ERROR, Error_fetching ''HDFCBANK.NS'' ProviderError)])"
proof -
  have 1: "download example_world ''TCS.NS'' = Inr (frame_of []) \<and> empty_frame (frame_of [])"
    by (simp add: example_defs empty_frame_def)
  have 2: "download example_world ''HDFCBANK.NS'' = Inl ProviderError"
    by (simp add: example_defs)
  show ?thesis
    using fetch_stock_data_None_outcomes [of example_world "''TCS.NS''" "frame_of []"]
      fetch_stock_data_None_outcomes [of example_world "''HDFCBANK.NS''" _ ProviderError] 1 2
    by simp
qed

text \<open>
  The claim as it stands fails: a provider without rows and a provider that raises give the
  caller the same value.
\<close>

theorem fetch_outcomes_counterexample:
  "download example_world ''TCS.NS'' = Inr (frame_of [])
   \<and> download example_world ''HDFCBANK.NS'' = Inl ProviderError
   \<and> fst (fetch_stock_data example_world ''TCS.NS'') = None
   \<and> fst (fetch_stock_data example_world ''HDFCBANK.NS'') = None"
  by (simp add: fetch_example_HDFCBANK fetch_example_other) (simp add: example_defs)

section \<open>Properties of the README update\<close>







lemma sort_key_Nil_iff: "sort_key f xs = [] \<longleftrightarrow> xs = []"
  using length_sort [of f xs] by (metis length_0_conv)

lemma select_recent_empty_iff:
  "select_order_by_datetime_desc_limit 2 stock dbase = Inr [] \<longleftrightarrow> map_of dbase stock = Some []"
  by (auto simp: select_order_by_datetime_desc_limit_def sort_key_Nil_iff split: option.splits)





lemma update_readme_loop_names:
  "map fst (fst (update_readme_loop dbase ss)) =
     filter (\<lambda>s. \<exists>tbl. map_of dbase s = Some tbl \<and> tbl \<noteq> []) ss"
  by (induction ss)
    (auto simp: select_order_by_datetime_desc_limit_def sort_key_Nil_iff
      split: prod.splits option.splits)

lemma update_readme_loop_v1_names:
  "map fst (fst (update_readme_loop_v1 dbase ss)) =
     filter (\<lambda>s. \<exists>tbl. map_of dbase s = Some tbl \<and> tbl \<noteq> []) ss"
  by (induction ss)
    (auto simp: select_order_by_datetime_desc_limit_def sort_key_Nil_iff
      split: prod.splits option.splits)

lemma update_readme_loop_nonempty:
  "sec \<in> set (fst (update_readme_loop dbase ss)) \<Longrightarrow> snd sec \<noteq> []"
  by (induction ss arbitrary: sec)
    (auto split: prod.splits sum.splits if_splits)

lemma update_readme_loop_v1_nonempty:
  "sec \<in> set (fst (update_readme_loop_v1 dbase ss)) \<Longrightarrow> snd sec \<noteq> []"
  by (induction ss arbitrary: sec)
    (auto simp: Let_def split: prod.splits sum.splits if_splits)

lemma sections_update_readme:
  "sections (fst (update_readme w dbase)) = fst (update_readme_loop dbase STOCKS)"
  by (simp add: update_readme_def split: prod.splits)

lemma sections_update_readme_v1:
  "sections (fst (update_readme_v1 w dbase)) = fst (update_readme_loop_v1 dbase STOCKS)"
  by (simp add: update_readme_v1_def split: prod.splits)

lemma section_names:
  "stock \<in> fst ` set (sections (fst (update_readme w dbase))) \<longleftrightarrow>
     stock \<in> set STOCKS \<and> (\<exists>tbl. map_of dbase stock = Some tbl \<and> tbl \<noteq> [])"
proof -
  have "fst ` set (sections (fst (update_readme w dbase)))
      = set (map fst (fst (update_readme_loop dbase STOCKS)))"
    by (simp add: sections_update_readme)
  then show ?thesis unfolding update_readme_loop_names by auto
qed

lemma section_names_v1:
  "stock \<in> fst ` set (sections (fst (update_readme_v1 w dbase))) \<longleftrightarrow>
     stock \<in> set STOCKS \<and> (\<exists>tbl. map_of dbase stock = Some tbl \<and> tbl \<noteq> [])"
proof -
  have "fst ` set (sections (fst (update_readme_v1 w dbase)))
      = set (map fst (fst (update_readme_loop_v1 dbase STOCKS)))"
    by (simp add: sections_update_readme_v1)
  then show ?thesis unfolding update_readme_loop_v1_names by auto
qed

text \<open>
  Claim C9. The README written by \<^verbatim>\<open>update_readme\<close> (of either variant) has a section for a
  symbol exactly when the symbol is in \<open>STOCKS\<close> and its table holds a row; no section is empty.
\<close>

theorem empty_series_has_no_section:
  "(stock \<in> fst ` set (sections (fst (update_readme w dbase))) \<longleftrightarrow>
      stock \<in> set STOCKS \<and> (\<exists>tbl. map_of dbase stock = Some tbl \<and> tbl \<noteq> []))
   \<and> (stock \<in> fst ` set (sections (fst (update_readme_v1 w dbase))) \<longleftrightarrow>
      stock \<in> set STOCKS \<and> (\<exists>tbl. map_of dbase stock = Some tbl \<and> tbl \<noteq> []))
   \<and> (\<forall>sec \<in> set (sections (fst (update_readme w dbase))). snd sec \<noteq> [])
   \<and> (\<forall>sec \<in> set (sections (fst (update_readme_v1 w dbase))). snd sec \<noteq> [])"
proof (intro conjI ballI)
  show "stock \<in> fst ` set (sections (fst (update_readme w dbase))) \<longleftrightarrow>
      stock \<in> set STOCKS \<and> (\<exists>tbl. map_of dbase stock = Some tbl \<and> tbl \<noteq> [])"
    by (rule section_names)
  show "stock \<in> fst ` set (sections (fst (update_readme_v1 w dbase))) \<longleftrightarrow>
      stock \<in> set STOCKS \<and> (\<exists>tbl. map_of dbase stock = Some tbl \<and> tbl \<noteq> [])"
    by (rule section_names_v1)
next
  fix sec assume "sec \<in> set (sections (fst (update_readme w dbase)))"
  then show "snd sec \<noteq> []"
    unfolding sections_update_readme by (rule update_readme_loop_nonempty)
next
  fix sec assume "sec \<in> set (sections (fst (update_readme_v1 w dbase)))"
  then show "snd sec \<noteq> []"
    unfolding sections_update_readme_v1 by (rule update_readme_loop_v1_nonempty)
qed

theorem empty_series_has_no_section_witness:
  "''RELIANCE.NS'' \<in> fst ` set (sections (fst (update_readme example_world
       [(''RELIANCE.NS'', [stored 9 45 100]), (''TCS.NS'', [])])))
   \<and> ''TCS.NS'' \<notin> fst ` set (sections (fst (update_readme example_world
       [(''RELIANCE.NS'', [stored 9 45 100]), (''TCS.NS'', [])])))
   \<and> ''TCS.NS'' \<notin> fst ` set (sections (fst (update_readme_v1 example_world
       [(''RELIANCE.NS'', [stored 9 45 100]), (''TCS.NS'', [])])))
   \<and> (''RELIANCE.NS'', [stored 9 45 100]) \<in> set (sections (fst (update_readme example_world
       [(''RELIANCE.NS'', [stored 9 45 100]), (''TCS.NS'', [])])))
   \<and> snd (''RELIANCE.NS'', [stored 9 45 100]) \<noteq> []"
proof -
  let ?d = "[(''RELIANCE.NS'', [stored 9 45 100]), (''TCS.NS'', [])]"
  have 1: "''RELIANCE.NS'' \<in> set STOCKS" by (simp add: STOCKS_def)
  have 2: "map_of ?d ''RELIANCE.NS'' = Some [stored 9 45 100]" by simp
  have 3: "map_of ?d ''TCS.NS'' = Some []" by simp
  have 4: "sections (fst (update_readme example_world ?d)) = [(''RELIANCE.NS'', [stored 9 45 100])]"
    by (simp add: update_readme_def STOCKS_def select_order_by_datetime_desc_limit_def)
  show ?thesis
    using empty_series_has_no_section [of "''RELIANCE.NS''" example_world ?d]
      empty_series_has_no_section [of "''TCS.NS''" example_world ?d] 1 2 3 4
    by simp
qed

section \<open>What \<^verbatim>\<open>insert_data\<close> reports\<close>

lemma length_fold_insert_or_ignore:
  "length tbl \<le> length (fold insert_or_ignore rs tbl)
   \<and> length (fold insert_or_ignore rs tbl) \<le> length tbl + length rs
   \<and> (length (fold insert_or_ignore rs tbl) = length tbl + length rs \<longleftrightarrow>
        distinct (map datetime rs) \<and> set (map datetime rs) \<inter> set (map datetime tbl) = {})"
proof (induction rs arbitrary: tbl)
  case Nil
  show ?case by simp
next
  case (Cons r rs)
  show ?case
  proof (cases "datetime r \<in> set (map datetime tbl)")
    case True
    then have "fold insert_or_ignore (r # rs) tbl = fold insert_or_ignore rs tbl"
      by (simp add: insert_or_ignore_def)
    with Cons.IH [of tbl] True show ?thesis by auto
  next
    case False
    then have "fold insert_or_ignore (r # rs) tbl = fold insert_or_ignore rs (tbl @ [r])"
      by (simp add: insert_or_ignore_def)
    with Cons.IH [of "tbl @ [r]"] False show ?thesis by auto
  qed
qed

text \<open>
  Claim C6, as amended. \<^verbatim>\<open>insert_data\<close> returns no count. What \<^verbatim>\<open>insert_data\<close> of v1 logs
  after its commit is the number of rows submitted, \<^verbatim>\<open>len(rows)\<close>. The number of rows that
  entered the table is at most that number, and it is that number exactly when the
  submitted keys differ from each other and from every key in the table.
\<close>

theorem reported_count_is_rows_submitted:
  assumes "map_of dbase stock = Some tbl" and "\<not> write_fails w stock"
  shows "\<exists>tbl'.
       insert_data_v1 w stock rows dbase =
         Inr (AList.update stock tbl' dbase, [(INFO, Inserted_duplicates_ignored stock (length rows))])
     \<and> length tbl \<le> length tbl' \<and> length tbl' \<le> length tbl + length rows
     \<and> (length tbl' = length tbl + length rows \<longleftrightarrow>
          distinct (map (\<lambda>r. text_of w (datetime r)) rows)
          \<and> (\<forall>r \<in> set rows. text_of w (datetime r) \<notin> set (map datetime tbl)))"
proof -
  let ?rs = "map (datetime_as_text (text_of w)) rows"
  let ?tbl' = "fold insert_or_ignore ?rs tbl"
  have k: "map datetime ?rs = map (\<lambda>r. text_of w (datetime r)) rows"
    by (simp add: datetime_as_text_def)
  have i: "insert_data_v1 w stock rows dbase =
      Inr (AList.update stock ?tbl' dbase, [(INFO, Inserted_duplicates_ignored stock (length rows))])"
    using assms by (simp add: insert_data_v1_cases)
  have l: "length tbl \<le> length ?tbl' \<and> length ?tbl' \<le> length tbl + length rows
     \<and> (length ?tbl' = length tbl + length rows \<longleftrightarrow>
          distinct (map (\<lambda>r. text_of w (datetime r)) rows)
          \<and> (\<forall>r \<in> set rows. text_of w (datetime r) \<notin> set (map datetime tbl)))"
    using length_fold_insert_or_ignore [of tbl ?rs] unfolding k by auto
  from i l show ?thesis by blast
qed

theorem reported_count_is_rows_submitted_witness:
  "\<exists>tbl'. insert_data_v1 example_world ''RELIANCE.NS'' [bar 9 45 100, bar 9 46 101]
                [(''RELIANCE.NS'', [stored 9 45 100])]
              = Inr (AList.update ''RELIANCE.NS'' tbl' [(''RELIANCE.NS'', [stored 9 45 100])],
                     [(INFO, Inserted_duplicates_ignored ''RELIANCE.NS'' 2)])
        \<and> length tbl' \<le> 3 \<and> length tbl' \<noteq> 3"
proof -
  have 3: "map_of [(''RELIANCE.NS'', [stored 9 45 100])] ''RELIANCE.NS'' = Some [stored 9 45 100]"
    by simp
  have 4: "\<not> write_fails example_world ''RELIANCE.NS''" by (simp add: example_world_def)
  have 5: "text_of example_world (datetime (bar 9 45 100)) \<in> set (map datetime [stored 9 45 100])"
    by (simp add: example_defs)
  show ?thesis
    using reported_count_is_rows_submitted [OF 3 4, of "[bar 9 45 100, bar 9 46 101]"] 5
    by (auto simp del: set_map)
qed

text \<open>
  The claim as it stands fails when the rows are in the table already: nothing is inserted
  and the record logged says two rows.
\<close>

theorem reported_count_counterexample:
  "insert_data_v1 example_world ''RELIANCE.NS'' [bar 9 45 100, bar 9 46 101]
       [(''RELIANCE.NS'', [stored 9 45 100, stored 9 46 101])]
     = Inr ([(''RELIANCE.NS'', [stored 9 45 100, stored 9 46 101])],
            [(INFO, Inserted_duplicates_ignored ''RELIANCE.NS'' 2)])"
  by (simp add: insert_data_v1_cases insert_or_ignore_def example_defs)

section \<open>Properties of a whole run\<close>

lemma main_loop_None:
  "fetch_stock_data w stock = (None, lg) \<Longrightarrow>
   main_loop w (stock # rest) st =
     main_loop w rest (st\<lparr>log := log st @ lg @ [(WARNING, No_data_to_insert stock)]\<rparr>)"
  by simp

lemma main_loop_raises:
  "fetch_stock_data w stock = (Some rows, lg) \<Longrightarrow> rows \<noteq> [] \<Longrightarrow>
   insert_data w stock rows (db st) = Inl e \<Longrightarrow>
   main_loop w (stock # rest) st = Inl (e, st\<lparr>log := log st @ lg\<rparr>)"
  by simp

lemma fetch_error_logged:
  "fetch_stock_data_try w stock = Inl e \<Longrightarrow>
   fetch_stock_data w stock = (None, [(ERROR, Error_fetching stock e)])"
  by (simp add: fetch_stock_data_def)

lemma main_loop_no_rows:
  assumes "\<forall>s \<in> set ss. fst (fetch_stock_data w s) = None"
  shows "\<exists>st'. main_loop w ss st = Inr st'
     \<and> db st' = db st \<and> readme_writes st' = readme_writes st
     \<and> set (log st) \<subseteq> set (log st')
     \<and> (\<forall>s \<in> set ss. (WARNING, No_data_to_insert s) \<in> set (log st')
            \<and> set (snd (fetch_stock_data w s)) \<subseteq> set (log st'))"
  using assms
proof (induction ss arbitrary: st)
  case Nil
  show ?case by simp
next
  case (Cons stock rest)
  obtain lg where f: "fetch_stock_data w stock = (None, lg)"
    using Cons.prems by (cases "fetch_stock_data w stock") simp
  let ?st1 = "st\<lparr>log := log st @ lg @ [(WARNING, No_data_to_insert stock)]\<rparr>"
  have 1: "main_loop w (stock # rest) st = main_loop w rest ?st1"
    using f by (rule main_loop_None)
  have p: "\<forall>s \<in> set rest. fst (fetch_stock_data w s) = None" using Cons.prems by simp
  obtain st' where
    a: "main_loop w rest ?st1 = Inr st'" and
    b: "db st' = db ?st1" "readme_writes st' = readme_writes ?st1" and
    c: "set (log ?st1) \<subseteq> set (log st')" and
    d: "\<forall>s \<in> set rest. (WARNING, No_data_to_insert s) \<in> set (log st')
            \<and> set (snd (fetch_stock_data w s)) \<subseteq> set (log st')"
    using Cons.IH [OF p, of ?st1] by blast
  have e: "(WARNING, No_data_to_insert stock) \<in> set (log st')"
    "set (snd (fetch_stock_data w stock)) \<subseteq> set (log st')" "set (log st) \<subseteq> set (log st')"
    using c f by auto
  show ?case
    using 1 a b d e by (intro exI [of _ st']) (auto simp del: main_loop.simps)
qed

text \<open>
  Claim C5, as amended. An exception inside \<^verbatim>\<open>fetch_stock_data\<close> is caught there and logged
  as an error. When every fetch ends without rows (no data, or an exception), \<^verbatim>\<open>main\<close> runs
  to its end: every symbol gets its pass and its "No data to insert" record,
  \<^verbatim>\<open>update_readme\<close> is called once, at the end, the tables are as \<^verbatim>\<open>init_db\<close> left them, and a
  symbol whose fetch raised and whose table held no rows before the run has no section in
  the README.
\<close>

theorem fetch_failures_are_isolated:
  assumes "\<forall>stock \<in> set STOCKS. fst (fetch_stock_data w stock) = None"
  shows "\<exists>st'. main w st = Inr st'
      \<and> db st' = init_db (db st)
      \<and> readme_writes st' = readme_writes st @ [fst (update_readme w (db st'))]
      \<and> (\<forall>stock \<in> set STOCKS. (WARNING, No_data_to_insert stock) \<in> set (log st'))
      \<and> (\<forall>stock \<in> set STOCKS. \<forall>e. fetch_stock_data_try w stock = Inl e \<longrightarrow>
            (ERROR, Error_fetching stock e) \<in> set (log st')
            \<and> (map_of (db st) stock = None \<or> map_of (db st) stock = Some [] \<longrightarrow>
                 stock \<notin> fst ` set (sections (last (readme_writes st')))))
      \<and> (\<forall>stock. stock \<in> fst ` set (sections (last (readme_writes st'))) \<longleftrightarrow>
            stock \<in> set STOCKS \<and> (\<exists>tbl. map_of (db st') stock = Some tbl \<and> tbl \<noteq> []))"
proof -
  let ?st1 = "st\<lparr>log := log st @ [(INFO, Starting_cycle)], db := init_db (db st)\<rparr>"
  obtain st2 where
    l: "main_loop w STOCKS ?st1 = Inr st2" and
    d: "db st2 = init_db (db st)" and
    r: "readme_writes st2 = readme_writes st" and
    n: "\<forall>s \<in> set STOCKS. (WARNING, No_data_to_insert s) \<in> set (log st2)
            \<and> set (snd (fetch_stock_data w s)) \<subseteq> set (log st2)"
    using main_loop_no_rows [OF assms, of ?st1] by auto
  obtain content lg where u: "update_readme w (db st2) = (content, lg)"
    by (cases "update_readme w (db st2)")
  let ?st' = "st2\<lparr>readme_writes := readme_writes st2 @ [content],
                  log := log st2 @ lg @ [(INFO, Cycle_complete)]\<rparr>"
  have m: "main w st = Inr ?st'"
    using l u by (simp add: main_def Let_def)
  have 1: "db ?st' = init_db (db st)" using d by simp
  have 2: "readme_writes ?st' = readme_writes st @ [fst (update_readme w (db ?st'))]"
    using r u by simp
  have 3: "\<forall>stock \<in> set STOCKS. (WARNING, No_data_to_insert stock) \<in> set (log ?st')"
    using n by simp
  have 5: "\<forall>stock. stock \<in> fst ` set (sections (last (readme_writes ?st'))) \<longleftrightarrow>
      stock \<in> set STOCKS \<and> (\<exists>tbl. map_of (db ?st') stock = Some tbl \<and> tbl \<noteq> [])"
    using section_names [of _ w "db st2"] u by simp
  have 4: "\<forall>stock \<in> set STOCKS. \<forall>e. fetch_stock_data_try w stock = Inl e \<longrightarrow>
            (ERROR, Error_fetching stock e) \<in> set (log ?st')
            \<and> (map_of (db st) stock = None \<or> map_of (db st) stock = Some [] \<longrightarrow>
                 stock \<notin> fst ` set (sections (last (readme_writes ?st'))))"
  proof (intro ballI allI impI)
    fix stock e assume s: "stock \<in> set STOCKS" and f: "fetch_stock_data_try w stock = Inl e"
    have g: "(ERROR, Error_fetching stock e) \<in> set (log ?st')"
      using n s fetch_error_logged [OF f] by auto
    have "map_of (db st) stock = None \<or> map_of (db st) stock = Some [] \<Longrightarrow>
        map_of (db ?st') stock = Some []"
      unfolding 1 using s by (auto simp: map_of_init_db)
    then have "map_of (db st) stock = None \<or> map_of (db st) stock = Some [] \<longrightarrow>
                 stock \<notin> fst ` set (sections (last (readme_writes ?st')))"
      using 5 by auto
    with g show "(ERROR, Error_fetching stock e) \<in> set (log ?st')
            \<and> (map_of (db st) stock = None \<or> map_of (db st) stock = Some [] \<longrightarrow>
                 stock \<notin> fst ` set (sections (last (readme_writes ?st'))))"
      by simp
  qed
  from m 1 2 3 4 5 show ?thesis by blast
qed

lemma fetch_no_rows_world:
  "fetch_stock_data no_rows_world stock =
     (if stock = ''HDFCBANK.NS'' then (None, [(ERROR, Error_fetching stock ProviderError)])
      else (None, [(WARNING, No_data_returned stock)]))"
  by (simp add: fetch_stock_data_def fetch_stock_data_try_def no_rows_world_def example_defs
      empty_frame_def)

theorem fetch_failures_are_isolated_witness:
  "fetch_stock_data_try no_rows_world ''HDFCBANK.NS'' = Inl ProviderError
   \<and> (\<exists>st'. main no_rows_world empty_state = Inr st'
        \<and> db st' = init_db []
        \<and> length (readme_writes st') = 1
        \<and> (ERROR, Error_fetching ''HDFCBANK.NS'' ProviderError) \<in> set (log st')
        \<and> (WARNING, No_data_to_insert ''ONGC.NS'') \<in> set (log st')
        \<and> ''HDFCBANK.NS'' \<notin> fst ` set (sections (last (readme_writes st'))))"
proof -
  have h: "\<forall>stock \<in> set STOCKS. fst (fetch_stock_data no_rows_world stock) = None"
    by (simp add: fetch_no_rows_world)
  have f: "fetch_stock_data_try no_rows_world ''HDFCBANK.NS'' = Inl ProviderError"
    by (simp add: fetch_stock_data_try_def no_rows_world_def)
  have s: "''HDFCBANK.NS'' \<in> set STOCKS" "''ONGC.NS'' \<in> set STOCKS"
    by (simp_all add: STOCKS_def)
  have z: "map_of (db (empty_state :: string row state)) ''HDFCBANK.NS'' = None"
    "db (empty_state :: string row state) = []"
    "readme_writes (empty_state :: string row state) = []"
    by (simp_all add: empty_state_def)
  obtain st' where
    1: "main no_rows_world empty_state = Inr st'" and
    2: "db st' = init_db (db (empty_state :: string row state))" and
    3: "readme_writes st' = readme_writes (empty_state :: string row state)
          @ [fst (update_readme no_rows_world (db st'))]" and
    4: "\<forall>stock \<in> set STOCKS. (WARNING, No_data_to_insert stock) \<in> set (log st')" and
    5: "\<forall>stock \<in> set STOCKS. \<forall>e. fetch_stock_data_try no_rows_world stock = Inl e \<longrightarrow>
            (ERROR, Error_fetching stock e) \<in> set (log st')
            \<and> (map_of (db (empty_state :: string row state)) stock = None
                 \<or> map_of (db (empty_state :: string row state)) stock = Some [] \<longrightarrow>
                 stock \<notin> fst ` set (sections (last (readme_writes st'))))"
    using fetch_failures_are_isolated [OF h, of empty_state] by blast
  have a: "db st' = init_db []" using 2 z by simp
  have b: "length (readme_writes st') = 1" using 3 z by simp
  have c: "(ERROR, Error_fetching ''HDFCBANK.NS'' ProviderError) \<in> set (log st')"
    "''HDFCBANK.NS'' \<notin> fst ` set (sections (last (readme_writes st')))"
    using 5 s(1) f z(1) by auto
  have d: "(WARNING, No_data_to_insert ''ONGC.NS'') \<in> set (log st')"
    using 4 s(2) by blast
  from f 1 a b c d show ?thesis by blast
qed

text \<open>
  The claim as it stands fails for an exception of \<^verbatim>\<open>insert_data\<close>, which \<^verbatim>\<open>main\<close> does not
  catch: the fetch of the first symbol returns two rows, \<^verbatim>\<open>insert_data\<close> raises, and the run
  ends there; no other symbol is fetched and no README is written.
\<close>

theorem upsert_error_counterexample:
  "fst (fetch_stock_data example_world ''RELIANCE.NS'') = Some [bar 9 45 100, bar 9 46 101]
   \<and> insert_data example_world ''RELIANCE.NS'' [bar 9 45 100, bar 9 46 101] (init_db [])
       = Inl (ProgrammingError ''type Timestamp is not supported'')
   \<and> main example_world empty_state
       = Inl (ProgrammingError ''type Timestamp is not supported'',
              \<lparr>db = init_db [], log = [(INFO, Starting_cycle)], readme_writes = []\<rparr>)"
proof -
  have f: "fetch_stock_data example_world ''RELIANCE.NS'' = (Some [bar 9 45 100, bar 9 46 101], [])"
    by (rule fetch_example_RELIANCE)
  have t: "map_of (init_db []) ''RELIANCE.NS'' = Some []"
    by (simp add: map_of_init_db STOCKS_def)
  have i: "insert_data example_world ''RELIANCE.NS'' [bar 9 45 100, bar 9 46 101] (init_db [])
       = Inl (ProgrammingError ''type Timestamp is not supported'')"
    using t by (simp add: insert_data_cases)
  have "main_loop example_world STOCKS
          \<lparr>db = init_db [], log = [(INFO, Starting_cycle)], readme_writes = [] :: string row readme list\<rparr>
      = Inl (ProgrammingError ''type Timestamp is not supported'',
             \<lparr>db = init_db [], log = [(INFO, Starting_cycle)], readme_writes = []\<rparr>)"
    unfolding STOCKS_def using f i by (subst main_loop_raises [OF f]) simp_all
  then have "main example_world empty_state
       = Inl (ProgrammingError ''type Timestamp is not supported'',
              \<lparr>db = init_db [], log = [(INFO, Starting_cycle)], readme_writes = []\<rparr>)"
    by (simp add: main_def empty_state_def)
  with f i show ?thesis by simp
qed

end
